theory Spec2Isabelle
  imports Complex_Main
begin

section \<open>Total Express shipping table generator: data model\<close>

text \<open>
  The embedding follows \<^verbatim>\<open>generate_shipping_table.py\<close>. Python integers are
  unbounded, so they are \<^typ>\<open>int\<close>. The cost of a quote is a Python float that the
  program only parses, carries and (intends to) format; it is never used in arithmetic,
  so its type is the parameter \<open>'c\<close> of the records that hold it.
\<close>

text \<open>
  The exceptions the program can meet, as values. \<^verbatim>\<open>SystemExit\<close> and
  \<^verbatim>\<open>KeyboardInterrupt\<close> derive from \<^verbatim>\<open>BaseException\<close> only; the others derive from
  \<^verbatim>\<open>Exception\<close>, which is what the handlers of the program name
  (\<^verbatim>\<open>except Exception as e\<close>).
\<close>

datatype exn =
    OSError
  | HTTPError
  | TransportError
  | SoapFault
  | AttributeError
  | ValueError
  | TypeError
  | SystemExit int
  | KeyboardInterrupt

fun is_Exception :: "exn \<Rightarrow> bool" where
  "is_Exception (SystemExit code) = False"
| "is_Exception KeyboardInterrupt = False"
| "is_Exception e = True"

text \<open>\<^verbatim>\<open>ShippingResult\<close>, the dataclass of one successful query.\<close>

record 'c ShippingResult =
  cep_start :: int
  cep_end :: int
  weight_start :: int
  weight_end :: int
  cost :: 'c
  delivery_days :: int
  service_type :: string

text \<open>The dictionary \<^verbatim>\<open>params\<close> handed to the SOAP call, key by key.\<close>

record Params =
  TipoServico :: string
  CepDestino :: string
  Peso :: string
  ValorDeclarado :: string
  TipoEntrega :: int
  ServicoCOD :: bool
  Altura :: string
  Largura :: string
  Profundidade :: string

text \<open>
  The dictionary returned by \<^verbatim>\<open>calculate_shipping_cost\<close> on success. It always
  has its three keys, so it is truthy in \<^verbatim>\<open>if api_result:\<close>.
\<close>

record 'c ApiResult =
  api_cost :: 'c
  api_delivery_days :: int
  api_success :: bool

section \<open>Range Enumerator\<close>

definition generate_cep_ranges :: "(int \<times> int) list" where
  "generate_cep_ranges =
    [ (1000000, 1999999),
      (2000000, 2899999),
      (2900000, 2999999),
      (3000000, 3999999),
      (4000000, 4899999),
      (4900000, 4999999),
      (5000000, 5699999),
      (5700000, 5799999),
      (5800000, 5899999),
      (5900000, 5999999),
      (6000000, 6399999),
      (6400000, 6499999),
      (6500000, 6599999),
      (6600000, 6889999),
      (6890000, 6899999),
      (7000000, 7279999),
      (7280000, 7679999),
      (7680000, 7699999),
      (6990000, 6999999),
      (7800000, 7889999),
      (7900000, 7999999),
      (8000000, 8799999),
      (8800000, 8999999),
      (9000000, 9999999),
      (7700000, 7799999),
      (6930000, 6939999) ]"

definition generate_weight_ranges :: "(int \<times> int) list" where
  "generate_weight_ranges =
    [ (1, 250),
      (251, 500),
      (501, 750),
      (751, 1000),
      (1001, 2000),
      (2001, 3000),
      (3001, 4000),
      (4001, 5000),
      (5001, 6000),
      (6001, 7000),
      (7001, 8000),
      (8001, 9000),
      (9001, 10000) ]"

section \<open>Representative values and request formatting\<close>

text \<open>
  The two midpoint expressions of \<^verbatim>\<open>generate_table\<close>; Python's \<^verbatim>\<open>//\<close> is
  floor division, as \<open>div\<close> on \<^typ>\<open>int\<close> is.
\<close>

definition test_cep :: "int \<Rightarrow> int \<Rightarrow> int" where
  "test_cep c_start c_end = c_start + (c_end - c_start) div 2"

definition test_weight :: "int \<Rightarrow> int \<Rightarrow> int" where
  "test_weight w_start w_end = (w_start + w_end) div 2"

text \<open>
  The two formatters return string literals: the source has \<^verbatim>\<open>return ".2f"\<close> and
  \<^verbatim>\<open>return "08d"\<close>, and the kilogram value it computes is never used.
\<close>

definition format_weight_for_api :: "int \<Rightarrow> string" where
  "format_weight_for_api weight_grams = ''.2f''"

definition format_cep_for_api :: "int \<Rightarrow> string" where
  "format_cep_for_api cep = ''08d''"

text \<open>Python's \<^verbatim>\<open>str\<close> on an integer: decimal digits, a minus sign when negative.\<close>

definition digit_char :: "nat \<Rightarrow> char" where
  "digit_char d =
     (if d = 0 then CHR ''0'' else if d = 1 then CHR ''1'' else if d = 2 then CHR ''2''
      else if d = 3 then CHR ''3'' else if d = 4 then CHR ''4'' else if d = 5 then CHR ''5''
      else if d = 6 then CHR ''6'' else if d = 7 then CHR ''7'' else if d = 8 then CHR ''8''
      else CHR ''9'')"

fun digits :: "nat \<Rightarrow> string" where
  "digits n = (if n < 10 then [digit_char n] else digits (n div 10) @ [digit_char (n mod 10)])"

declare digits.simps [simp del]

definition str_int :: "int \<Rightarrow> string" where
  "str_int i = (if i < 0 then CHR ''-'' # digits (nat (- i)) else digits (nat i))"

section \<open>Remote Pricing Client\<close>

text \<open>
  The carrier's endpoint is outside the program. What it answers to one call of the client
  is a value of type \<open>Remote\<close>: the outcome of the WSDL request, of building the SOAP
  client from the fetched definition, and of the \<^verbatim>\<open>calcularFrete\<close> call. Each can
  raise (\<open>Inl\<close>); the claims quantify over every such answer.

  A field of the SOAP result is \<^verbatim>\<open>None\<close>, an integer or a string; an attribute can be
  missing from its object, which \<^verbatim>\<open>hasattr\<close> tests and attribute access turns into
  \<^verbatim>\<open>AttributeError\<close>.
\<close>

datatype pyval = PyNone | PyInt int | PyStr string

datatype 'a attr = NoAttr | Attr 'a

datatype frete = FreteNone | Frete "pyval attr" "pyval attr"

record SoapResult =
  CodigoProc :: "pyval attr"
  DadosFrete :: "frete attr"

record HttpResponse =
  status_ok :: bool
  response_text :: string

record Remote =
  wsdl_get :: "exn + HttpResponse"
  client_init :: "exn option"
  calcularFrete :: "exn + SoapResult"

fun ValorServico :: "frete \<Rightarrow> exn + pyval" where
  "ValorServico (Frete (Attr v) _) = Inr v"
| "ValorServico _ = Inl AttributeError"

fun Prazo :: "frete \<Rightarrow> exn + pyval" where
  "Prazo (Frete _ (Attr v)) = Inr v"
| "Prazo _ = Inl AttributeError"

fun py_str :: "pyval \<Rightarrow> string" where
  "py_str PyNone = ''None''"
| "py_str (PyInt i) = str_int i"
| "py_str (PyStr s) = s"

text \<open>\<^verbatim>\<open>.replace(',', '.')\<close>\<close>

definition replace_comma :: "string \<Rightarrow> string" where
  "replace_comma s = map (\<lambda>c. if c = CHR '','' then CHR ''.'' else c) s"

text \<open>
  Python's \<^verbatim>\<open>float\<close> and \<^verbatim>\<open>int\<close> on a string are parameters of the model
  (\<open>float_of\<close>, \<open>int_of\<close>): \<open>None\<close> is their \<^verbatim>\<open>ValueError\<close>.
\<close>

definition py_float :: "(string \<Rightarrow> 'c option) \<Rightarrow> string \<Rightarrow> exn + 'c" where
  "py_float float_of s = (case float_of s of None \<Rightarrow> Inl ValueError | Some c \<Rightarrow> Inr c)"

fun py_int :: "(string \<Rightarrow> int option) \<Rightarrow> pyval \<Rightarrow> exn + int" where
  "py_int int_of PyNone = Inl TypeError"
| "py_int int_of (PyInt i) = Inr i"
| "py_int int_of (PyStr s) = (case int_of s of None \<Rightarrow> Inl ValueError | Some i \<Rightarrow> Inr i)"

text \<open>
  \<^verbatim>\<open>get_wsdl\<close>: the body of its \<^verbatim>\<open>try\<close>, then the handler
  \<^verbatim>\<open>except Exception\<close>, which lets any other exception through.
\<close>

definition get_wsdl_try :: "Remote \<Rightarrow> exn + string" where
  "get_wsdl_try r =
     (case wsdl_get r of
        Inl e \<Rightarrow> Inl e
      | Inr response \<Rightarrow> if status_ok response then Inr (response_text response) else Inl HTTPError)"

definition get_wsdl :: "Remote \<Rightarrow> exn + string option" where
  "get_wsdl r =
     (case get_wsdl_try r of
        Inl e \<Rightarrow> if is_Exception e then Inr None else Inl e
      | Inr t \<Rightarrow> Inr (Some t))"

text \<open>
  The body of the \<^verbatim>\<open>try\<close> of \<^verbatim>\<open>calculate_shipping_cost\<close>. The dictionary literal
  evaluates \<^verbatim>\<open>'cost'\<close> before \<^verbatim>\<open>'delivery_days'\<close>.
\<close>

definition read_result :: "(string \<Rightarrow> 'c option) \<Rightarrow> (string \<Rightarrow> int option) \<Rightarrow> SoapResult
    \<Rightarrow> exn + 'c ApiResult option" where
  "read_result float_of int_of result =
     (if (case CodigoProc result of NoAttr \<Rightarrow> False | Attr v \<Rightarrow> v = PyInt 1) then
        (case DadosFrete result of
           NoAttr \<Rightarrow> Inr None
         | Attr d \<Rightarrow>
            (case ValorServico d of
               Inl e \<Rightarrow> Inl e
             | Inr v \<Rightarrow>
                (case py_float float_of (replace_comma (py_str v)) of
                   Inl e \<Rightarrow> Inl e
                 | Inr c \<Rightarrow>
                    (case Prazo d of
                       Inl e \<Rightarrow> Inl e
                     | Inr z \<Rightarrow>
                        (case py_int int_of z of
                           Inl e \<Rightarrow> Inl e
                         | Inr n \<Rightarrow>
                            Inr (Some \<lparr>api_cost = c, api_delivery_days = n, api_success = True\<rparr>))))))
      else Inr None)"

definition calculate_try :: "(string \<Rightarrow> 'c option) \<Rightarrow> (string \<Rightarrow> int option) \<Rightarrow> Remote
    \<Rightarrow> exn + 'c ApiResult option" where
  "calculate_try float_of int_of r =
     (case client_init r of
        Some e \<Rightarrow> Inl e
      | None \<Rightarrow>
         (case calcularFrete r of
            Inl e \<Rightarrow> Inl e
          | Inr result \<Rightarrow> read_result float_of int_of result))"

text \<open>
  \<^verbatim>\<open>calculate_shipping_cost\<close>. Its first argument after the parsers is the endpoint as
  this call meets it: the answer it gives to the parameters sent. \<^verbatim>\<open>not wsdl_content\<close>
  holds for \<^verbatim>\<open>None\<close> and for the empty string. The call of \<^verbatim>\<open>get_wsdl\<close> is outside
  the \<^verbatim>\<open>try\<close>; the handler of the \<^verbatim>\<open>try\<close> is \<^verbatim>\<open>except Exception\<close>.
\<close>

definition calculate_shipping_cost :: "(string \<Rightarrow> 'c option) \<Rightarrow> (string \<Rightarrow> int option)
    \<Rightarrow> (Params \<Rightarrow> Remote) \<Rightarrow> Params \<Rightarrow> exn + 'c ApiResult option" where
  "calculate_shipping_cost float_of int_of endpoint params =
     (case get_wsdl (endpoint params) of
        Inl e \<Rightarrow> Inl e
      | Inr wsdl_content \<Rightarrow>
         if wsdl_content = None \<or> wsdl_content = Some [] then Inr None
         else (case calculate_try float_of int_of (endpoint params) of
                 Inl e \<Rightarrow> if is_Exception e then Inr None else Inl e
               | Inr res \<Rightarrow> Inr res))"

text \<open>
  Two readings of an answer of the endpoint: the exception \<open>e\<close> is raised at one of its
  three steps; and every exception it raises derives from \<^verbatim>\<open>Exception\<close>, as the errors
  of the HTTP and SOAP libraries do (a failed connection, an error status, a SOAP fault, a
  definition that does not parse).
\<close>

definition raised_by :: "Remote \<Rightarrow> exn \<Rightarrow> bool" where
  "raised_by r e = (wsdl_get r = Inl e \<or> client_init r = Some e \<or> calcularFrete r = Inl e)"

definition ordinary_failures :: "Remote \<Rightarrow> bool" where
  "ordinary_failures r =
     ((case wsdl_get r of Inl e \<Rightarrow> is_Exception e | Inr response \<Rightarrow> True)
      \<and> (case client_init r of Some e \<Rightarrow> is_Exception e | None \<Rightarrow> True)
      \<and> (case calcularFrete r of Inl e \<Rightarrow> is_Exception e | Inr result \<Rightarrow> True))"

section \<open>Process state and file system\<close>

text \<open>
  The state the program acts on: the calls made to the client so far (latest last, each
  with the parameters sent), the files written, and how the file system answers
  \<^verbatim>\<open>os.makedirs\<close> and \<^verbatim>\<open>open(path, 'w')\<close> for a path: with success (\<open>None\<close>) or with
  the exception it raises, whichever that is (\<^verbatim>\<open>OSError\<close> for a path it refuses,
  \<^verbatim>\<open>ValueError\<close> for a path holding a NUL character, and so on). A failure while
  writing an opened file leaves the \<^verbatim>\<open>with\<close> block the same way as a failure to open
  it, so both are the one answer \<open>open_raises\<close>. Logging and \<^verbatim>\<open>time.sleep\<close> are left
  out.
\<close>

record world =
  calls :: "Params list"
  files :: "string \<rightharpoonup> string"
  makedirs_raises :: "string \<Rightarrow> exn option"
  open_raises :: "string \<Rightarrow> exn option"

definition can_makedirs :: "world \<Rightarrow> string \<Rightarrow> bool" where
  "can_makedirs w path = (makedirs_raises w path = None)"

definition can_open_w :: "world \<Rightarrow> string \<Rightarrow> bool" where
  "can_open_w w path = (open_raises w path = None)"

definition os_makedirs :: "string \<Rightarrow> world \<Rightarrow> (exn + unit) \<times> world" where
  "os_makedirs path w =
     (case makedirs_raises w path of None \<Rightarrow> (Inr (), w) | Some e \<Rightarrow> (Inl e, w))"

definition write_file :: "string \<Rightarrow> string \<Rightarrow> world \<Rightarrow> (exn + unit) \<times> world" where
  "write_file path content w =
     (case open_raises w path of
        None \<Rightarrow> (Inr (), w\<lparr>files := (files w)(path \<mapsto> content)\<rparr>)
      | Some e \<Rightarrow> (Inl e, w))"

text \<open>\<^verbatim>\<open>os.path.dirname\<close> and \<^verbatim>\<open>os.path.join\<close> of two components, as in posixpath.\<close>

definition dirname :: "string \<Rightarrow> string" where
  "dirname p =
     (let head = rev (dropWhile (\<lambda>c. c \<noteq> CHR ''/'') (rev p))
      in if head \<noteq> [] \<and> \<not> list_all (\<lambda>c. c = CHR ''/'') head
         then rev (dropWhile (\<lambda>c. c = CHR ''/'') (rev head))
         else head)"

definition path_join :: "string \<Rightarrow> string \<Rightarrow> string" where
  "path_join a b =
     (if b \<noteq> [] \<and> hd b = CHR ''/'' then b
      else if a = [] \<or> last a = CHR ''/'' then a @ b
      else a @ ''/'' @ b)"

section \<open>Table Writer\<close>

definition fieldnames :: "string list" where
  "fieldnames = [''ZipCodeStart'', ''ZipCodeEnd'', ''WeightStart'', ''WeightEnd'',
                 ''AbsoluteMoneyCost'', ''TimeCost'']"

text \<open>
  The row dictionary of \<^verbatim>\<open>write_csv\<close>, in the order of \<open>fieldnames\<close>, each value as the
  csv module converts it (\<^verbatim>\<open>str\<close>). The value under \<^verbatim>\<open>'AbsoluteMoneyCost'\<close> is the string
  literal \<^verbatim>\<open>".2f"\<close>.
\<close>

definition row_fields :: "'c ShippingResult \<Rightarrow> string list" where
  "row_fields result =
     [str_int (cep_start result), str_int (cep_end result),
      str_int (weight_start result), str_int (weight_end result),
      ''.2f'', str_int (delivery_days result)]"

fun join_comma :: "string list \<Rightarrow> string" where
  "join_comma [] = []"
| "join_comma [x] = x"
| "join_comma (x # y # ys) = x @ CHR '','' # join_comma (y # ys)"

text \<open>
  One record of the csv writer: the fields joined by commas, ended by the writer's line
  terminator CR LF (the file is opened with \<^verbatim>\<open>newline=''\<close>). No field of this program
  holds a comma, a quote or a line break, so none is quoted.
\<close>

definition csv_line :: "string list \<Rightarrow> string" where
  "csv_line row = join_comma row @ [CHR 0x0D, CHR 0x0A]"

definition csv_text :: "'c ShippingResult list \<Rightarrow> string" where
  "csv_text results = concat (map csv_line (fieldnames # map row_fields results))"

definition write_csv :: "'c ShippingResult list \<Rightarrow> string \<Rightarrow> world \<Rightarrow> (exn + unit) \<times> world" where
  "write_csv results output_file w = write_file output_file (csv_text results) w"

section \<open>Table Generator\<close>

definition make_params :: "string \<Rightarrow> int \<Rightarrow> int \<Rightarrow> Params" where
  "make_params service tcep tweight =
     \<lparr>TipoServico = service,
      CepDestino = format_cep_for_api tcep,
      Peso = format_weight_for_api tweight,
      ValorDeclarado = ''0,00'',
      TipoEntrega = 0,
      ServicoCOD = False,
      Altura = ''10,00'',
      Largura = ''15,00'',
      Profundidade = ''20,00''\<rparr>"

definition make_result :: "string \<Rightarrow> int \<times> int \<Rightarrow> int \<times> int \<Rightarrow> 'c ApiResult \<Rightarrow> 'c ShippingResult" where
  "make_result service cr wr api_result =
     \<lparr>cep_start = fst cr, cep_end = snd cr,
      weight_start = fst wr, weight_end = snd wr,
      cost = api_cost api_result,
      delivery_days = api_delivery_days api_result,
      service_type = service\<rparr>"

text \<open>
  The client as \<^verbatim>\<open>generate_table\<close> sees it: called with the number of calls made before
  (so that its answers may change over time) and the parameters, it returns a result,
  \<open>None\<close>, or raises.

  The inner loop over the weight bands, for one postal band: one call per band, a row
  appended when the result is truthy, nothing otherwise. An exception of the client is not
  caught here and leaves the loop.
\<close>

fun weight_loop :: "(nat \<Rightarrow> Params \<Rightarrow> exn + 'c ApiResult option) \<Rightarrow> string \<Rightarrow> int \<times> int
    \<Rightarrow> (int \<times> int) list \<Rightarrow> 'c ShippingResult list \<Rightarrow> world
    \<Rightarrow> (exn + 'c ShippingResult list) \<times> world" where
  "weight_loop api service cr [] results w = (Inr results, w)"
| "weight_loop api service cr (wr # weight_ranges) results w =
     (let params = make_params service (test_cep (fst cr) (snd cr)) (test_weight (fst wr) (snd wr));
          w' = w\<lparr>calls := calls w @ [params]\<rparr>
      in case api (length (calls w)) params of
           Inl e \<Rightarrow> (Inl e, w')
         | Inr None \<Rightarrow> weight_loop api service cr weight_ranges results w'
         | Inr (Some api_result) \<Rightarrow>
             weight_loop api service cr weight_ranges
               (results @ [make_result service cr wr api_result]) w')"

text \<open>The outer loop over the postal bands.\<close>

fun cep_loop :: "(nat \<Rightarrow> Params \<Rightarrow> exn + 'c ApiResult option) \<Rightarrow> string \<Rightarrow> (int \<times> int) list
    \<Rightarrow> (int \<times> int) list \<Rightarrow> 'c ShippingResult list \<Rightarrow> world
    \<Rightarrow> (exn + 'c ShippingResult list) \<times> world" where
  "cep_loop api service [] weight_ranges results w = (Inr results, w)"
| "cep_loop api service (cr # cep_ranges) weight_ranges results w =
     (case weight_loop api service cr weight_ranges results w of
        (Inl e, w') \<Rightarrow> (Inl e, w')
      | (Inr results', w') \<Rightarrow> cep_loop api service cep_ranges weight_ranges results' w')"

text \<open>The output path \<^verbatim>\<open>generate_table\<close> writes to; \<open>script\<close> is \<^verbatim>\<open>__file__\<close>.\<close>

definition output_dir :: "string \<Rightarrow> string" where
  "output_dir script = path_join (dirname script) ''output''"

definition output_path :: "string \<Rightarrow> string \<Rightarrow> string" where
  "output_path script output_file =
     (if dirname output_file = [] then path_join (output_dir script) output_file
      else output_file)"

definition generate_table :: "(nat \<Rightarrow> Params \<Rightarrow> exn + 'c ApiResult option) \<Rightarrow> string
    \<Rightarrow> string \<Rightarrow> string \<Rightarrow> world \<Rightarrow> (exn + unit) \<times> world" where
  "generate_table api script service output_file w =
     (case os_makedirs (output_dir script) w of
        (Inl e, w1) \<Rightarrow> (Inl e, w1)
      | (Inr _, w1) \<Rightarrow>
         (case cep_loop api service generate_cep_ranges generate_weight_ranges [] w1 of
            (Inl e, w2) \<Rightarrow> (Inl e, w2)
          | (Inr results, w2) \<Rightarrow> write_csv results (output_path script output_file) w2))"

section \<open>Entry point\<close>

text \<open>
  \<^verbatim>\<open>main\<close>. \<open>env\<close> is the process environment after \<^verbatim>\<open>load_dotenv()\<close>; \<open>service\<close> is
  the carrier's endpoint, which may answer by the credentials presented, the number of
  earlier calls and the parameters. \<^verbatim>\<open>sys.exit(1)\<close> raises \<^verbatim>\<open>SystemExit(1)\<close>.
\<close>

definition getenv :: "(string \<rightharpoonup> string) \<Rightarrow> string \<Rightarrow> string \<Rightarrow> string" where
  "getenv env key dflt = (case env key of None \<Rightarrow> dflt | Some v \<Rightarrow> v)"

definition client :: "(string \<Rightarrow> 'c option) \<Rightarrow> (string \<Rightarrow> int option)
    \<Rightarrow> (string \<times> string \<Rightarrow> nat \<Rightarrow> Params \<Rightarrow> Remote) \<Rightarrow> string \<Rightarrow> string
    \<Rightarrow> nat \<Rightarrow> Params \<Rightarrow> exn + 'c ApiResult option" where
  "client float_of int_of service username password k params =
     calculate_shipping_cost float_of int_of (service (username, password) k) params"

definition main :: "(string \<Rightarrow> 'c option) \<Rightarrow> (string \<Rightarrow> int option)
    \<Rightarrow> (string \<times> string \<Rightarrow> nat \<Rightarrow> Params \<Rightarrow> Remote) \<Rightarrow> (string \<rightharpoonup> string) \<Rightarrow> string
    \<Rightarrow> world \<Rightarrow> (exn + unit) \<times> world" where
  "main float_of int_of service env script w =
     (let USERNAME = getenv env ''TOTAL_EXPRESS_USERNAME'' ''your_username'';
          PASSWORD = getenv env ''TOTAL_EXPRESS_PASSWORD'' ''your_password''
      in if USERNAME = ''your_username'' \<or> PASSWORD = ''your_password''
         then (Inl (SystemExit 1), w)
         else
          (let api = client float_of int_of service USERNAME PASSWORD
           in case generate_table api script ''STD'' ''total_express_standard.csv'' w of
                (Inl e, w1) \<Rightarrow> (Inl e, w1)
              | (Inr _, w1) \<Rightarrow> generate_table api script ''EXP'' ''total_express_express.csv'' w1))"

section \<open>The cross product of queries\<close>

text \<open>
  The queries of one run as the specification lists them: the pairs of a postal band and
  a weight band, postal bands outermost (\<^const>\<open>List.product\<close> has this order), each with
  the parameters sent for it and, numbered by the calls made before it, the row it gives
  when the client answers with a result.
\<close>

definition query_params :: "string \<Rightarrow> (int \<times> int) \<times> (int \<times> int) \<Rightarrow> Params" where
  "query_params service q =
     make_params service (test_cep (fst (fst q)) (snd (fst q)))
                         (test_weight (fst (snd q)) (snd (snd q)))"

definition query_row :: "(nat \<Rightarrow> Params \<Rightarrow> exn + 'c ApiResult option) \<Rightarrow> string
    \<Rightarrow> nat \<times> ((int \<times> int) \<times> (int \<times> int)) \<Rightarrow> 'c ShippingResult option" where
  "query_row api service kq =
     (case api (fst kq) (query_params service (snd kq)) of
        Inr (Some api_result) \<Rightarrow> Some (make_result service (fst (snd kq)) (snd (snd kq)) api_result)
      | _ \<Rightarrow> None)"

definition bounds :: "'c ShippingResult \<Rightarrow> (int \<times> int) \<times> (int \<times> int)" where
  "bounds r = ((cep_start r, cep_end r), (weight_start r, weight_end r))"

definition all_queries :: "((int \<times> int) \<times> (int \<times> int)) list" where
  "all_queries = List.product generate_cep_ranges generate_weight_ranges"

text \<open>The number of lines of a text: its line feeds.\<close>

definition line_count :: "string \<Rightarrow> nat" where
  "line_count s = length (filter (\<lambda>c. c = CHR 0x0A) s)"

section \<open>Example inputs\<close>

text \<open>Concrete values at which the theorems below are instantiated.\<close>

definition row_sp_250 :: "rat ShippingResult" where
  "row_sp_250 =
     \<lparr>cep_start = 1000000, cep_end = 1999999, weight_start = 1, weight_end = 250,
      cost = 25 / 2, delivery_days = 5, service_type = ''STD''\<rparr>"

definition float_of_ex :: "string \<Rightarrow> rat option" where
  "float_of_ex s =
     (if s = ''12.50'' then Some (25 / 2) else if s = ''10.00'' then Some 10 else None)"

definition int_of_ex :: "string \<Rightarrow> int option" where
  "int_of_ex s = (if s = ''5'' then Some 5 else None)"

text \<open>An endpoint that answers every call with a quote of 10,00 in 5 days.\<close>

definition remote_ok :: Remote where
  "remote_ok =
     \<lparr>wsdl_get = Inr \<lparr>status_ok = True, response_text = ''<definitions/>''\<rparr>,
      client_init = None,
      calcularFrete =
        Inr \<lparr>CodigoProc = Attr (PyInt 1),
             DadosFrete = Attr (Frete (Attr (PyStr ''10,00'')) (Attr (PyInt 5)))\<rparr>\<rparr>"


text \<open>An endpoint that cannot be reached.\<close>

definition remote_down :: Remote where
  "remote_down =
     \<lparr>wsdl_get = Inl TransportError, client_init = None, calcularFrete = Inl TransportError\<rparr>"

definition service_ok :: "string \<times> string \<Rightarrow> nat \<Rightarrow> Params \<Rightarrow> Remote" where
  "service_ok creds k params = remote_ok"

definition service_down :: "string \<times> string \<Rightarrow> nat \<Rightarrow> Params \<Rightarrow> Remote" where
  "service_down creds k params = remote_down"

text \<open>A stub client that always returns a cost of 10.00 and 5 days, and one that always fails.\<close>

definition api_stub :: "nat \<Rightarrow> Params \<Rightarrow> exn + rat ApiResult option" where
  "api_stub k params = Inr (Some \<lparr>api_cost = 10, api_delivery_days = 5, api_success = True\<rparr>)"

definition api_none :: "nat \<Rightarrow> Params \<Rightarrow> exn + rat ApiResult option" where
  "api_none k params = Inr None"

text \<open>A client that fails on every call but the first.\<close>

definition api_first_only :: "nat \<Rightarrow> Params \<Rightarrow> exn + rat ApiResult option" where
  "api_first_only k params =
     (if k = 0 then Inr (Some \<lparr>api_cost = 10, api_delivery_days = 5, api_success = True\<rparr>)
      else Inr None)"

text \<open>A fresh process on a file system that allows everything, and one that refuses to
  open files for writing.\<close>

definition world0 :: world where
  "world0 =
     \<lparr>calls = [], files = Map.empty, makedirs_raises = (\<lambda>p. None), open_raises = (\<lambda>p. None)\<rparr>"


definition script0 :: string where
  "script0 = ''/app/generate_shipping_table.py''"

text \<open>Environments: no credentials set, and an empty username with a real password.\<close>

definition env_unset :: "string \<rightharpoonup> string" where
  "env_unset = Map.empty"

definition env_empty_user :: "string \<rightharpoonup> string" where
  "env_empty_user =
     [''TOTAL_EXPRESS_USERNAME'' \<mapsto> [], ''TOTAL_EXPRESS_PASSWORD'' \<mapsto> ''s3cret'']"

section \<open>Properties of the loops and of the written text\<close>

lemma map_filter_append: "List.map_filter f (xs @ ys) = List.map_filter f xs @ List.map_filter f ys"
  by (simp add: List.map_filter_def)

lemma weight_loop_total:
  assumes "\<forall>k p. \<exists>r. api k p = Inr r"
  shows "weight_loop api service cr wrs results w =
    (Inr (results @ List.map_filter (query_row api service)
                      (enumerate (length (calls w)) (map (Pair cr) wrs))),
     w\<lparr>calls := calls w @ map (query_params service) (map (Pair cr) wrs)\<rparr>)"
proof (induction wrs arbitrary: results w)
  case Nil
  show ?case by (simp add: List.map_filter_simps)
next
  case (Cons wr wrs)
  let ?p = "query_params service (cr, wr)"
  obtain r where r: "api (length (calls w)) ?p = Inr r" using assms by blast
  show ?case
  proof (cases r)
    case None
    with r show ?thesis
      by (simp add: Cons.IH List.map_filter_simps query_row_def query_params_def Let_def)
  next
    case (Some a)
    with r show ?thesis
      by (simp add: Cons.IH List.map_filter_simps query_row_def query_params_def Let_def)
  qed
qed

lemma cep_loop_total:
  assumes "\<forall>k p. \<exists>r. api k p = Inr r"
  shows "cep_loop api service crs wrs results w =
    (Inr (results @ List.map_filter (query_row api service)
                      (enumerate (length (calls w)) (List.product crs wrs))),
     w\<lparr>calls := calls w @ map (query_params service) (List.product crs wrs)\<rparr>)"
proof (induction crs arbitrary: results w)
  case Nil
  show ?case by (simp add: List.map_filter_simps)
next
  case (Cons cr crs)
  show ?case
    by (simp add: weight_loop_total [OF assms] Cons.IH enumerate_append_eq map_filter_append)
qed

lemma generate_table_total:
  assumes "\<forall>k p. \<exists>r. api k p = Inr r"
  shows "generate_table api script service out w =
    (case makedirs_raises w (output_dir script) of
       Some e \<Rightarrow> (Inl e, w)
     | None \<Rightarrow>
        (case open_raises w (output_path script out) of
           Some e \<Rightarrow> (Inl e, w\<lparr>calls := calls w @ map (query_params service) all_queries\<rparr>)
         | None \<Rightarrow>
            (Inr (),
             w\<lparr>calls := calls w @ map (query_params service) all_queries,
               files := (files w)(output_path script out \<mapsto>
                 csv_text (List.map_filter (query_row api service)
                            (enumerate (length (calls w)) all_queries)))\<rparr>)))"
  by (simp add: generate_table_def os_makedirs_def cep_loop_total [OF assms] write_csv_def
        write_file_def all_queries_def split: option.splits)






lemma length_all_queries: "length all_queries = 338"
  by (simp add: all_queries_def generate_cep_ranges_def generate_weight_ranges_def)

lemma bounds_make_result: "bounds (make_result service cr wr a) = (cr, wr)"
  by (simp add: bounds_def make_result_def)

lemma rows_all_success:
  assumes "\<forall>k p. \<exists>a. api k p = Inr (Some a)"
  shows "map bounds (List.map_filter (query_row api service) (enumerate n qs)) = qs"
proof (induction qs arbitrary: n)
  case Nil
  show ?case by (simp add: List.map_filter_simps)
next
  case (Cons q qs)
  obtain a where a: "api n (query_params service q) = Inr (Some a)" using assms by blast
  then have "query_row api service (n, q) = Some (make_result service (fst q) (snd q) a)"
    by (simp add: query_row_def)
  then show ?case
    by (simp add: List.map_filter_simps Cons.IH bounds_make_result)
qed

lemma digit_char_no_lf: "digit_char k \<noteq> CHR 0x0A"
  by (simp add: digit_char_def)

lemma digits_no_lf: "CHR 0x0A \<notin> set (digits n)"
proof (induction n rule: digits.induct)
  case (1 n)
  show ?case
  proof (cases "n < 10")
    case True
    then have "digits n = [digit_char n]" by (subst digits.simps) simp
    then show ?thesis using digit_char_no_lf [of n] by simp
  next
    case False
    then have "digits n = digits (n div 10) @ [digit_char (n mod 10)]"
      by (subst digits.simps) simp
    then show ?thesis using 1 False digit_char_no_lf [of "n mod 10"] by simp
  qed
qed

lemma str_int_no_lf: "CHR 0x0A \<notin> set (str_int i)"
  by (simp add: str_int_def digits_no_lf)

lemma join_comma_no_lf:
  "\<forall>x \<in> set xs. CHR 0x0A \<notin> set x \<Longrightarrow> CHR 0x0A \<notin> set (join_comma xs)"
proof (induction xs rule: join_comma.induct)
  case 1
  show ?case by simp
next
  case (2 x)
  then show ?case by simp
next
  case (3 x y ys)
  then have "CHR 0x0A \<notin> set x" and "CHR 0x0A \<notin> set (join_comma (y # ys))" by simp_all
  then show ?case by simp
qed

lemma line_count_Nil: "line_count [] = 0"
  by (simp add: line_count_def)

lemma line_count_append: "line_count (a @ b) = line_count a + line_count b"
  by (simp add: line_count_def)

lemma line_count_csv_line:
  assumes "\<forall>x \<in> set xs. CHR 0x0A \<notin> set x"
  shows "line_count (csv_line xs) = 1"
proof -
  from assms have "CHR 0x0A \<notin> set (join_comma xs)" by (rule join_comma_no_lf)
  then have "filter (\<lambda>c. c = CHR 0x0A) (join_comma xs) = []"
    by (auto simp: filter_empty_conv)
  then show ?thesis by (simp add: csv_line_def line_count_def)
qed

lemma line_count_row: "line_count (csv_line (row_fields r)) = 1"
  by (rule line_count_csv_line) (simp add: row_fields_def str_int_no_lf)

lemma line_count_header: "line_count (csv_line fieldnames) = 1"
  by (rule line_count_csv_line) (simp add: fieldnames_def)

lemma line_count_rows:
  "line_count (concat (map (\<lambda>r. csv_line (row_fields r)) rows)) = length rows"
  by (induction rows) (simp_all add: line_count_Nil line_count_append line_count_row)

lemma line_count_csv_text: "line_count (csv_text rows) = Suc (length rows)"
  by (simp add: csv_text_def line_count_append line_count_header line_count_rows comp_def)

lemma map_filter_all_None:
  "(\<forall>x \<in> set xs. f x = None) \<Longrightarrow> List.map_filter f xs = []"
  by (induction xs) (simp_all add: List.map_filter_simps)

lemma rows_first_only:
  "List.map_filter (query_row api_first_only service) (enumerate 0 (q # qs)) =
     [make_result service (fst q) (snd q) \<lparr>api_cost = 10, api_delivery_days = 5, api_success = True\<rparr>]"
proof -
  have "List.map_filter (query_row api_first_only service) (enumerate (Suc 0) qs) = []"
    by (rule map_filter_all_None) (auto simp: query_row_def api_first_only_def in_set_enumerate_eq)
  then show ?thesis
    by (simp add: List.map_filter_simps query_row_def api_first_only_def)
qed

lemma csv_line_make_result:
  "csv_line (row_fields (make_result service cr wr a)) =
     str_int (fst cr) @ '','' @ str_int (snd cr) @ '','' @ str_int (fst wr) @ '',''
       @ str_int (snd wr) @ '',.2f,'' @ str_int (api_delivery_days a) @ [CHR 0x0D, CHR 0x0A]"
  by (simp add: csv_line_def row_fields_def make_result_def)

lemma csv_rows_all_success:
  assumes "\<forall>k p. api k p = Inr (Some (answer k p))"
  shows "concat (map (\<lambda>r. csv_line (row_fields r))
            (List.map_filter (query_row api service) (enumerate n qs))) =
         concat (map (\<lambda>(k, ((cs, ce), (ws, we))).
              str_int cs @ '','' @ str_int ce @ '','' @ str_int ws @ '','' @ str_int we
                @ '',.2f,''
                @ str_int (api_delivery_days (answer k (query_params service ((cs, ce), (ws, we)))))
                @ [CHR 0x0D, CHR 0x0A])
            (enumerate n qs))"
proof (induction qs arbitrary: n)
  case Nil
  show ?case by (simp add: List.map_filter_simps)
next
  case (Cons q qs)
  have "query_row api service (n, q) =
          Some (make_result service (fst q) (snd q) (answer n (query_params service q)))"
    using assms by (simp add: query_row_def)
  then show ?case
    by (simp add: List.map_filter_simps Cons.IH csv_line_make_result case_prod_beta)
qed

lemma csv_text_all_success:
  assumes "\<forall>k p. api k p = Inr (Some (answer k p))"
  shows "csv_text (List.map_filter (query_row api service) (enumerate n qs)) =
         ''ZipCodeStart,ZipCodeEnd,WeightStart,WeightEnd,AbsoluteMoneyCost,TimeCost''
           @ [CHR 0x0D, CHR 0x0A]
           @ concat (map (\<lambda>(k, ((cs, ce), (ws, we))).
              str_int cs @ '','' @ str_int ce @ '','' @ str_int ws @ '','' @ str_int we
                @ '',.2f,''
                @ str_int (api_delivery_days (answer k (query_params service ((cs, ce), (ws, we)))))
                @ [CHR 0x0D, CHR 0x0A])
            (enumerate n qs))"
proof -
  have h: "csv_line fieldnames =
      ''ZipCodeStart,ZipCodeEnd,WeightStart,WeightEnd,AbsoluteMoneyCost,TimeCost''
        @ [CHR 0x0D, CHR 0x0A]"
    by (simp add: csv_line_def fieldnames_def)
  have "csv_text (List.map_filter (query_row api service) (enumerate n qs)) =
      csv_line fieldnames @ concat (map (\<lambda>r. csv_line (row_fields r))
            (List.map_filter (query_row api service) (enumerate n qs)))"
    by (simp add: csv_text_def comp_def)
  then show ?thesis
    unfolding csv_rows_all_success [OF assms] h by simp
qed

section \<open>Properties of the client\<close>


lemma read_result_Exception: "read_result F I res = Inl e \<Longrightarrow> is_Exception e"
proof -
  have v: "ValorServico d = Inl e \<Longrightarrow> is_Exception e" for d
    by (cases d rule: ValorServico.cases) auto
  have z: "Prazo d = Inl e \<Longrightarrow> is_Exception e" for d
    by (cases d rule: Prazo.cases) auto
  have f: "py_float F x = Inl e \<Longrightarrow> is_Exception e" for x
    by (auto simp: py_float_def split: option.splits)
  have i: "py_int I y = Inl e \<Longrightarrow> is_Exception e" for y
    by (cases y) (auto split: option.splits)
  assume "read_result F I res = Inl e"
  then show ?thesis
    using v z f i
    by (auto simp: read_result_def split: if_splits attr.splits sum.splits)
qed

lemma calculate_shipping_cost_raises:
  "calculate_shipping_cost F I ep p = Inl e \<Longrightarrow> \<not> is_Exception e \<and> raised_by (ep p) e"
  using read_result_Exception [of F I _ e]
  by (auto simp: calculate_shipping_cost_def get_wsdl_def get_wsdl_try_def calculate_try_def
        raised_by_def split: sum.splits option.splits if_splits)

lemma calculate_shipping_cost_total:
  "ordinary_failures (ep p) \<Longrightarrow> \<exists>r. calculate_shipping_cost F I ep p = Inr r"
proof -
  assume o: "ordinary_failures (ep p)"
  show ?thesis
  proof (cases "calculate_shipping_cost F I ep p")
    case (Inl e)
    then have "\<not> is_Exception e" and "raised_by (ep p) e"
      using calculate_shipping_cost_raises by blast+
    with o show ?thesis by (auto simp: ordinary_failures_def raised_by_def)
  next
    case (Inr r)
    then show ?thesis by blast
  qed
qed


lemma client_total:
  "\<forall>k p. ordinary_failures (service (u, pw) k p) \<Longrightarrow>
   \<forall>k p. \<exists>r. client F I service u pw k p = Inr r"
  by (simp add: client_def calculate_shipping_cost_total)


lemma service_down_ordinary: "\<forall>k p. ordinary_failures (service_down creds k p)"
  by (simp add: service_down_def remote_down_def ordinary_failures_def)

section \<open>Range Enumerator: the fixed bands\<close>

text \<open>
  Claim C7. The postal bands are a fixed list of 26 pairs and the weight bands a fixed list
  of 13 pairs; the weight bands start at 1 g, end at 10000 g and each begins one gram after
  the one before it ends; in every band of either list the end is at least the start. Both
  are constants: they read no state and cannot fail.
\<close>

theorem range_enumerator_bands:
  "length generate_cep_ranges = 26 \<and> length generate_weight_ranges = 13
   \<and> fst (hd generate_weight_ranges) = 1 \<and> snd (last generate_weight_ranges) = 10000
   \<and> map fst (tl generate_weight_ranges) = map (\<lambda>b. snd b + 1) (butlast generate_weight_ranges)
   \<and> (\<forall>(s, e) \<in> set generate_cep_ranges. s \<le> e)
   \<and> (\<forall>(s, e) \<in> set generate_weight_ranges. s \<le> e)"
proof -
  have len: "length generate_cep_ranges = 26 \<and> length generate_weight_ranges = 13"
    by (simp add: generate_cep_ranges_def generate_weight_ranges_def)
  have ends: "fst (hd generate_weight_ranges) = 1 \<and> snd (last generate_weight_ranges) = 10000"
    by (simp add: generate_weight_ranges_def)
  have contiguous:
    "map fst (tl generate_weight_ranges) = map (\<lambda>b. snd b + 1) (butlast generate_weight_ranges)"
    by (simp add: generate_weight_ranges_def)
  have cep: "\<forall>(s, e) \<in> set generate_cep_ranges. s \<le> e"
    by (simp add: generate_cep_ranges_def)
  have weight: "\<forall>(s, e) \<in> set generate_weight_ranges. s \<le> e"
    by (simp add: generate_weight_ranges_def)
  from len ends contiguous cep weight show ?thesis by blast
qed

theorem range_enumerator_bands_witness:
  "(6930000, 6939999) \<in> set generate_cep_ranges \<and> (6930000 :: int) \<le> 6939999
   \<and> (9001, 10000) \<in> set generate_weight_ranges \<and> (9001 :: int) \<le> 10000"
  using range_enumerator_bands
  by (simp add: generate_cep_ranges_def generate_weight_ranges_def)

section \<open>Representative values\<close>

text \<open>
  Claim C6. For every band, postal or weight, the representative value the generator
  computes is \<open>start + (end - start) div 2\<close> with floor division, although the weight one
  is written \<open>(start + end) div 2\<close>.
\<close>

theorem representative_is_midpoint:
  "test_cep s e = s + (e - s) div 2 \<and> test_weight s e = s + (e - s) div 2"
  unfolding test_cep_def test_weight_def by presburger

section \<open>Formatting of the written cost and of the request fields\<close>

text \<open>
  Claim C1 asks for the cost with two fraction digits in the \<^verbatim>\<open>AbsoluteMoneyCost\<close>
  column. The writer puts the literal \<^verbatim>\<open>.2f\<close> there: the file written for one row of cost
  12.5 holds \<^verbatim>\<open>.2f\<close> where \<^verbatim>\<open>12.50\<close> is expected.
\<close>

theorem write_csv_cost_is_literal:
  "cost row_sp_250 = 25 / 2
   \<and> row_fields row_sp_250 ! 4 = ''.2f''
   \<and> csv_text [row_sp_250] =
       ''ZipCodeStart,ZipCodeEnd,WeightStart,WeightEnd,AbsoluteMoneyCost,TimeCost''
         @ [CHR 0x0D, CHR 0x0A] @ ''1000000,1999999,1,250,.2f,5'' @ [CHR 0x0D, CHR 0x0A]"
  by (simp add: row_sp_250_def csv_text_def csv_line_def fieldnames_def row_fields_def
        str_int_def digits.simps digit_char_def)

text \<open>
  Claim C2 asks for the CEP zero-padded to eight digits and the weight in kilograms with
  two decimals. Both formatters return a literal whatever their argument: for the CEP
  1000000 the request carries \<^verbatim>\<open>08d\<close>, not \<^verbatim>\<open>01000000\<close>, and for 1500 g it carries
  \<^verbatim>\<open>.2f\<close>, not \<^verbatim>\<open>1.50\<close>.
\<close>

theorem formatters_return_literals:
  "format_cep_for_api 1000000 = ''08d'' \<and> format_cep_for_api 1000000 \<noteq> ''01000000''
   \<and> format_weight_for_api 1500 = ''.2f'' \<and> format_weight_for_api 1500 \<noteq> ''1.50''
   \<and> CepDestino (make_params ''STD'' (test_cep 1000000 1999999) (test_weight 1 250)) = ''08d''
   \<and> Peso (make_params ''STD'' (test_cep 1000000 1999999) (test_weight 1 250)) = ''.2f''"
  by (simp add: format_cep_for_api_def format_weight_for_api_def make_params_def)

section \<open>Remote Pricing Client: result, nothing, or an exception passing through\<close>




section \<open>Table Generator: every query succeeds\<close>

text \<open>
  Claim C3. When the client answers every query with a result, and the output directory
  and file can be written, the loops collect exactly 26 \<times> 13 = 338 rows, one per pair of a
  postal band and a weight band; the bounds of the rows are those pairs, postal bands
  outermost and weight bands innermost; 338 calls are made; and the file written holds
  the header and then, in that same order, one line per pair with the pair's four bounds,
  the cost column as the writer fills it, and the delay the client returned for that
  query: 339 lines in all.
\<close>

theorem generate_all_success:
  assumes "\<forall>k p. api k p = Inr (Some (answer k p))"
    and "can_makedirs w (output_dir script)"
    and "can_open_w w (output_path script output_file)"
  shows "\<exists>rows w'.
      cep_loop api service generate_cep_ranges generate_weight_ranges [] w = (Inr rows, w')
    \<and> length rows = 338
    \<and> map bounds rows = List.product generate_cep_ranges generate_weight_ranges
    \<and> length (calls w') = length (calls w) + 338
    \<and> fst (generate_table api script service output_file w) = Inr ()
    \<and> files (snd (generate_table api script service output_file w))
         (output_path script output_file) = Some (csv_text rows)
    \<and> line_count (csv_text rows) = 339
    \<and> csv_text rows =
        ''ZipCodeStart,ZipCodeEnd,WeightStart,WeightEnd,AbsoluteMoneyCost,TimeCost''
          @ [CHR 0x0D, CHR 0x0A]
          @ concat (map (\<lambda>(k, ((cs, ce), (ws, we))).
              str_int cs @ '','' @ str_int ce @ '','' @ str_int ws @ '','' @ str_int we
                @ '',.2f,''
                @ str_int (api_delivery_days (answer k (query_params service ((cs, ce), (ws, we)))))
                @ [CHR 0x0D, CHR 0x0A])
            (enumerate (length (calls w))
               (List.product generate_cep_ranges generate_weight_ranges)))"
proof -
  from assms(1) have some: "\<forall>k p. \<exists>a. api k p = Inr (Some a)" by blast
  then have total: "\<forall>k p. \<exists>r. api k p = Inr r" by blast
  let ?rows = "List.map_filter (query_row api service) (enumerate (length (calls w)) all_queries)"
  let ?w' = "w\<lparr>calls := calls w @ map (query_params service) all_queries\<rparr>"
  have loop: "cep_loop api service generate_cep_ranges generate_weight_ranges [] w = (Inr ?rows, ?w')"
    by (simp add: cep_loop_total [OF total] all_queries_def)
  have b: "map bounds ?rows = all_queries"
    by (rule rows_all_success [OF some])
  have "length (map bounds ?rows) = 338"
    by (simp only: b length_all_queries)
  then have len: "length ?rows = 338" by simp
  have gen: "generate_table api script service output_file w =
      (Inr (), ?w'\<lparr>files := (files w)(output_path script output_file \<mapsto> csv_text ?rows)\<rparr>)"
    using assms(2,3)
    by (simp add: generate_table_total [OF total] can_makedirs_def can_open_w_def)
  have lines: "line_count (csv_text ?rows) = 339"
    by (simp add: line_count_csv_text len)
  have calls: "length (calls ?w') = length (calls w) + 338"
    by (simp add: length_all_queries)
  note content = csv_text_all_success [OF assms(1), of service "length (calls w)" all_queries]
  from loop b len gen lines calls content show ?thesis
    by (simp add: all_queries_def)
qed

theorem generate_all_success_witness:
  "(\<forall>k p. api_stub k p =
       Inr (Some \<lparr>api_cost = 10, api_delivery_days = 5, api_success = True\<rparr>))
   \<and> can_makedirs world0 (output_dir script0)
   \<and> can_open_w world0 (output_path script0 ''total_express_standard.csv'')
   \<and> fst (generate_table api_stub script0 ''STD'' ''total_express_standard.csv'' world0) = Inr ()
   \<and> output_path script0 ''total_express_standard.csv'' = ''/app/output/total_express_standard.csv''
   \<and> files (snd (generate_table api_stub script0 ''STD'' ''total_express_standard.csv'' world0))
         ''/app/output/total_express_standard.csv'' =
       Some (''ZipCodeStart,ZipCodeEnd,WeightStart,WeightEnd,AbsoluteMoneyCost,TimeCost''
          @ [CHR 0x0D, CHR 0x0A]
          @ concat (map (\<lambda>(k, ((cs, ce), (ws, we))).
              str_int cs @ '','' @ str_int ce @ '','' @ str_int ws @ '','' @ str_int we
                @ '',.2f,'' @ str_int 5 @ [CHR 0x0D, CHR 0x0A])
            (enumerate 0 (List.product generate_cep_ranges generate_weight_ranges))))"
proof -
  have h1: "\<forall>k p. api_stub k p =
       Inr (Some ((\<lambda>k p. \<lparr>api_cost = 10, api_delivery_days = 5, api_success = True\<rparr>) k p))"
    by (simp add: api_stub_def)
  have h2: "can_makedirs world0 (output_dir script0)" by (simp add: world0_def can_makedirs_def)
  have h3: "can_open_w world0 (output_path script0 ''total_express_standard.csv'')"
    by (simp add: world0_def can_open_w_def)
  have p: "output_path script0 ''total_express_standard.csv'' = ''/app/output/total_express_standard.csv''"
    by (simp add: output_path_def output_dir_def dirname_def path_join_def script0_def)
  have c: "calls world0 = []" by (simp add: world0_def)
  from generate_all_success [OF h1 h2 h3, of "''STD''"]
  obtain rows :: "rat ShippingResult list" where
    ok: "fst (generate_table api_stub script0 ''STD'' ''total_express_standard.csv'' world0) = Inr ()"
    and fl: "files (snd (generate_table api_stub script0 ''STD'' ''total_express_standard.csv'' world0))
         (output_path script0 ''total_express_standard.csv'') = Some (csv_text rows)"
    and content: "csv_text rows =
        ''ZipCodeStart,ZipCodeEnd,WeightStart,WeightEnd,AbsoluteMoneyCost,TimeCost''
          @ [CHR 0x0D, CHR 0x0A]
          @ concat (map (\<lambda>(k, ((cs, ce), (ws, we))).
              str_int cs @ '','' @ str_int ce @ '','' @ str_int ws @ '','' @ str_int we
                @ '',.2f,'' @ str_int 5 @ [CHR 0x0D, CHR 0x0A])
            (enumerate (length (calls world0))
               (List.product generate_cep_ranges generate_weight_ranges)))"
    by auto
  from fl content have
    "files (snd (generate_table api_stub script0 ''STD'' ''total_express_standard.csv'' world0))
         ''/app/output/total_express_standard.csv'' =
       Some (''ZipCodeStart,ZipCodeEnd,WeightStart,WeightEnd,AbsoluteMoneyCost,TimeCost''
          @ [CHR 0x0D, CHR 0x0A]
          @ concat (map (\<lambda>(k, ((cs, ce), (ws, we))).
              str_int cs @ '','' @ str_int ce @ '','' @ str_int ws @ '','' @ str_int we
                @ '',.2f,'' @ str_int 5 @ [CHR 0x0D, CHR 0x0A])
            (enumerate 0 (List.product generate_cep_ranges generate_weight_ranges))))"
    unfolding p c by simp
  with h1 h2 h3 p ok show ?thesis by simp
qed

section \<open>Table Generator: failed queries are skipped\<close>

text \<open>
  Claim C5. With a client that returns a result or \<^verbatim>\<open>None\<close> on each call, the loops run
  through the whole cross product (one call per query, in order), and the rows collected
  are those of the queries answered with a result, in the order of iteration: a query
  answered \<^verbatim>\<open>None\<close> gives no row and does not stop the run. When the output can be
  written, the file holds exactly these rows.
\<close>

theorem generate_skips_failures:
  assumes "\<forall>k p. \<exists>r. api k p = Inr r"
  shows "cep_loop api service generate_cep_ranges generate_weight_ranges [] w =
      (Inr (List.map_filter (query_row api service)
              (enumerate (length (calls w))
                 (List.product generate_cep_ranges generate_weight_ranges))),
       w\<lparr>calls := calls w @ map (query_params service)
                  (List.product generate_cep_ranges generate_weight_ranges)\<rparr>)
    \<and> (\<forall>k q. api k (query_params service q) = Inr None \<longrightarrow> query_row api service (k, q) = None)
    \<and> (\<forall>k q a. api k (query_params service q) = Inr (Some a) \<longrightarrow>
          query_row api service (k, q) = Some (make_result service (fst q) (snd q) a))
    \<and> (can_makedirs w (output_dir script) \<and> can_open_w w (output_path script output_file) \<longrightarrow>
          generate_table api script service output_file w =
            (Inr (),
             w\<lparr>calls := calls w @ map (query_params service)
                        (List.product generate_cep_ranges generate_weight_ranges),
               files := (files w)(output_path script output_file \<mapsto>
                 csv_text (List.map_filter (query_row api service)
                   (enumerate (length (calls w))
                     (List.product generate_cep_ranges generate_weight_ranges))))\<rparr>))"
proof -
  have loop: "cep_loop api service generate_cep_ranges generate_weight_ranges [] w =
      (Inr (List.map_filter (query_row api service)
              (enumerate (length (calls w))
                 (List.product generate_cep_ranges generate_weight_ranges))),
       w\<lparr>calls := calls w @ map (query_params service)
                  (List.product generate_cep_ranges generate_weight_ranges)\<rparr>)"
    by (simp add: cep_loop_total [OF assms])
  have none: "\<forall>k q. api k (query_params service q) = Inr None \<longrightarrow> query_row api service (k, q) = None"
    by (simp add: query_row_def)
  have some: "\<forall>k q a. api k (query_params service q) = Inr (Some a) \<longrightarrow>
          query_row api service (k, q) = Some (make_result service (fst q) (snd q) a)"
    by (simp add: query_row_def)
  have gen: "can_makedirs w (output_dir script) \<and> can_open_w w (output_path script output_file) \<longrightarrow>
          generate_table api script service output_file w =
            (Inr (),
             w\<lparr>calls := calls w @ map (query_params service)
                        (List.product generate_cep_ranges generate_weight_ranges),
               files := (files w)(output_path script output_file \<mapsto>
                 csv_text (List.map_filter (query_row api service)
                   (enumerate (length (calls w))
                     (List.product generate_cep_ranges generate_weight_ranges))))\<rparr>)"
    by (simp add: generate_table_total [OF assms] all_queries_def can_makedirs_def
          can_open_w_def)
  from loop none some gen show ?thesis by blast
qed

theorem generate_skips_failures_witness:
  "(\<forall>k p. \<exists>r. api_first_only k p = Inr r)
   \<and> api_first_only 1 (query_params ''STD'' ((1000000, 1999999), (251, 500))) = Inr None
   \<and> fst (cep_loop api_first_only ''STD'' generate_cep_ranges generate_weight_ranges [] world0)
       = Inr [\<lparr>cep_start = 1000000, cep_end = 1999999, weight_start = 1, weight_end = 250,
               cost = 10, delivery_days = 5, service_type = ''STD''\<rparr>]
   \<and> length (calls (snd (cep_loop api_first_only ''STD'' generate_cep_ranges
                           generate_weight_ranges [] world0))) = 338"
proof -
  have h: "\<forall>k p. \<exists>r. api_first_only k p = Inr r" by (simp add: api_first_only_def)
  have q: "List.product generate_cep_ranges generate_weight_ranges =
            ((1000000, 1999999), (1, 250)) # tl (List.product generate_cep_ranges generate_weight_ranges)"
    by (simp add: generate_cep_ranges_def generate_weight_ranges_def)
  have rows: "List.map_filter (query_row api_first_only ''STD'')
               (enumerate 0 (List.product generate_cep_ranges generate_weight_ranges))
        = [\<lparr>cep_start = 1000000, cep_end = 1999999, weight_start = 1, weight_end = 250,
               cost = 10, delivery_days = 5, service_type = ''STD''\<rparr>]"
  proof -
    have "List.map_filter (query_row api_first_only ''STD'')
            (enumerate 0 (((1000000, 1999999), (1, 250))
               # tl (List.product generate_cep_ranges generate_weight_ranges)))
          = [make_result ''STD'' (1000000, 1999999) (1, 250)
               \<lparr>api_cost = 10, api_delivery_days = 5, api_success = True\<rparr>]"
      using rows_first_only [of "''STD''" "((1000000, 1999999), (1, 250))"] by simp
    then have "List.map_filter (query_row api_first_only ''STD'')
            (enumerate 0 (List.product generate_cep_ranges generate_weight_ranges))
          = [make_result ''STD'' (1000000, 1999999) (1, 250)
               \<lparr>api_cost = 10, api_delivery_days = 5, api_success = True\<rparr>]"
      unfolding q [symmetric] .
    then show ?thesis by (simp add: make_result_def)
  qed
  have n: "length generate_cep_ranges * length generate_weight_ranges = 338"
    by (simp add: generate_cep_ranges_def generate_weight_ranges_def)
  have e: "api_first_only 1 (query_params ''STD'' ((1000000, 1999999), (251, 500))) = Inr None"
    by (simp add: api_first_only_def)
  have c: "calls world0 = []" by (simp add: world0_def)
  from generate_skips_failures [OF h, of "''STD''" world0 script0 "''x.csv''"]
  have "cep_loop api_first_only ''STD'' generate_cep_ranges generate_weight_ranges [] world0 =
      (Inr (List.map_filter (query_row api_first_only ''STD'')
              (enumerate (length (calls world0))
                 (List.product generate_cep_ranges generate_weight_ranges))),
       world0\<lparr>calls := calls world0 @ map (query_params ''STD'')
                  (List.product generate_cep_ranges generate_weight_ranges)\<rparr>)"
    by blast
  then have "fst (cep_loop api_first_only ''STD'' generate_cep_ranges generate_weight_ranges [] world0)
       = Inr [\<lparr>cep_start = 1000000, cep_end = 1999999, weight_start = 1, weight_end = 250,
               cost = 10, delivery_days = 5, service_type = ''STD''\<rparr>]"
    and "length (calls (snd (cep_loop api_first_only ''STD'' generate_cep_ranges
                           generate_weight_ranges [] world0))) = 338"
    by (simp_all add: c rows n)
  with h e show ?thesis by blast
qed

section \<open>Table Generator: which exceptions leave it\<close>




section \<open>Table Writer: no rows\<close>

text \<open>
  Claim C10. Called with no rows, the writer still writes the output file (creating it or
  replacing what it held), and the file holds the header line and nothing else: one line.
  So a run in which every query fails leaves a file with just the header.
\<close>

theorem write_csv_empty_header_only:
  "(can_open_w w path \<longrightarrow>
      write_csv ([] :: 'c ShippingResult list) path w =
        (Inr (), w\<lparr>files := (files w)(path \<mapsto>
           ''ZipCodeStart,ZipCodeEnd,WeightStart,WeightEnd,AbsoluteMoneyCost,TimeCost''
             @ [CHR 0x0D, CHR 0x0A])\<rparr>))
   \<and> line_count (csv_text ([] :: 'c ShippingResult list)) = 1
   \<and> ((\<forall>k p. api k p = (Inr None :: exn + 'c ApiResult option))
        \<and> can_makedirs w (output_dir script) \<and> can_open_w w (output_path script out) \<longrightarrow>
        fst (generate_table api script st out w) = Inr ()
        \<and> files (snd (generate_table api script st out w)) (output_path script out) =
            Some (''ZipCodeStart,ZipCodeEnd,WeightStart,WeightEnd,AbsoluteMoneyCost,TimeCost''
                    @ [CHR 0x0D, CHR 0x0A]))"
proof -
  have header: "csv_text ([] :: 'c ShippingResult list) =
      ''ZipCodeStart,ZipCodeEnd,WeightStart,WeightEnd,AbsoluteMoneyCost,TimeCost''
        @ [CHR 0x0D, CHR 0x0A]"
    by (simp add: csv_text_def csv_line_def fieldnames_def)
  have w: "can_open_w w path \<longrightarrow>
      write_csv ([] :: 'c ShippingResult list) path w =
        (Inr (), w\<lparr>files := (files w)(path \<mapsto>
           ''ZipCodeStart,ZipCodeEnd,WeightStart,WeightEnd,AbsoluteMoneyCost,TimeCost''
             @ [CHR 0x0D, CHR 0x0A])\<rparr>)"
    unfolding header [symmetric] by (simp add: write_csv_def write_file_def can_open_w_def)
  have l: "line_count (csv_text ([] :: 'c ShippingResult list)) = 1"
    by (simp add: line_count_csv_text)
  have g: "fst (generate_table api script st out w) = Inr ()
        \<and> files (snd (generate_table api script st out w)) (output_path script out) =
            Some (''ZipCodeStart,ZipCodeEnd,WeightStart,WeightEnd,AbsoluteMoneyCost,TimeCost''
                    @ [CHR 0x0D, CHR 0x0A])"
    if none: "\<forall>k p. api k p = (Inr None :: exn + 'c ApiResult option)"
      and fs: "can_makedirs w (output_dir script)" "can_open_w w (output_path script out)"
  proof -
    from none have total: "\<forall>k p. \<exists>r. api k p = Inr r" by simp
    have "\<forall>x \<in> set (enumerate (length (calls w)) all_queries). query_row api st x = None"
      using none by (simp add: query_row_def)
    then have "List.map_filter (query_row api st) (enumerate (length (calls w)) all_queries) = []"
      by (rule map_filter_all_None)
    then show ?thesis
      using fs unfolding header [symmetric]
      by (simp add: generate_table_total [OF total] can_makedirs_def can_open_w_def)
  qed
  from w l g show ?thesis by blast
qed

theorem write_csv_empty_header_only_witness:
  "(\<forall>k p. api_none k p = Inr None)
   \<and> can_makedirs world0 (output_dir script0)
   \<and> can_open_w world0 (output_path script0 ''total_express_standard.csv'')
   \<and> files (snd (generate_table api_none script0 ''STD'' ''total_express_standard.csv'' world0))
        (output_path script0 ''total_express_standard.csv'') =
       Some (''ZipCodeStart,ZipCodeEnd,WeightStart,WeightEnd,AbsoluteMoneyCost,TimeCost''
               @ [CHR 0x0D, CHR 0x0A])
   \<and> fst (write_csv ([] :: rat ShippingResult list) ''out.csv'' world0) = Inr ()"
  using write_csv_empty_header_only [of world0 "''out.csv''" api_none script0
          "''total_express_standard.csv''" "''STD''"]
  by (simp add: api_none_def world0_def can_makedirs_def can_open_w_def)

section \<open>Entry point: credentials\<close>

text \<open>
  Claim C8 says that the program aborts before any call when a credential is absent, empty
  or a placeholder. The guard of \<^verbatim>\<open>main\<close> compares each value with its default only, so
  an empty username passes it: the run goes on and calls the client 676 times.
\<close>

theorem main_empty_username_counterexample:
  "env_empty_user ''TOTAL_EXPRESS_USERNAME'' = Some []
   \<and> fst (main float_of_ex int_of_ex service_down env_empty_user script0 world0) = Inr ()
   \<and> length (calls (snd (main float_of_ex int_of_ex service_down env_empty_user script0 world0))) = 676"
  by (simp add: main_def getenv_def env_empty_user_def Let_def
        generate_table_total [OF client_total [OF service_down_ordinary]] world0_def
        length_all_queries)

text \<open>
  Claim C8, amended. When either credential is absent from the environment or equal to its
  placeholder (\<^verbatim>\<open>your_username\<close>, \<^verbatim>\<open>your_password\<close>), \<^verbatim>\<open>main\<close> exits with status 1 and
  leaves the state as it was: no call was made and no file written.
\<close>

theorem main_aborts_on_placeholder:
  "env ''TOTAL_EXPRESS_USERNAME'' = None \<or> env ''TOTAL_EXPRESS_USERNAME'' = Some ''your_username''
   \<or> env ''TOTAL_EXPRESS_PASSWORD'' = None \<or> env ''TOTAL_EXPRESS_PASSWORD'' = Some ''your_password''
   \<Longrightarrow> main F I service env script w = (Inl (SystemExit 1), w)"
  by (auto simp: main_def getenv_def Let_def split: option.splits)

theorem main_aborts_on_placeholder_witness:
  "env_unset ''TOTAL_EXPRESS_USERNAME'' = None
   \<and> main float_of_ex int_of_ex service_ok env_unset script0 world0 = (Inl (SystemExit 1), world0)
   \<and> calls world0 = []"
  using main_aborts_on_placeholder [of env_unset float_of_ex int_of_ex service_ok script0 world0]
  by (simp add: env_unset_def world0_def)

end
